theory Spec2Isabelle
  imports Main "HOL-Library.Monad_Syntax"
begin

section \<open>The documentation build configuration of herkos (docs/conf.py)\<close>

text \<open>
  The source is a Python module of eleven top-level assignments. Each right-hand side
  is a string literal or a list display of string literals. Executing the module binds
  eleven names in the module namespace, one after the other; the host documentation
  tool then looks the names up in that namespace.
\<close>

subsection \<open>Python values and the module namespace\<close>

text \<open>
  The only values the module builds: \<open>str\<close> objects and \<open>list\<close> objects. Python is
  dynamically typed, so a name of the namespace may hold either.
\<close>

datatype pyval = VStr string | VList "pyval list"

text \<open>
  The namespace the module body runs in: a dictionary from names to values. The host
  tool (and Python itself) may have put names into it before the body runs, so the
  initial namespace is a parameter of the model.
\<close>

type_synonym namespace = "string \<rightharpoonup> pyval"

subsection \<open>The module body\<close>

text \<open>
  \<^verbatim>\<open>
  project = "herkos"
  copyright = "2026, Arnaud Riess"
  author = "Arnaud Riess"
  release = "0.1.0"
  extensions = [
      "myst_parser",
      "sphinx_needs",
  ]
  myst_enable_extensions = [
      "colon_fence",
  ]
  templates_path = ["_templates"]
  exclude_patterns = ["_build", "Thumbs.db", ".DS_Store"]
  needs_from_toml = "ubproject.toml"
  html_theme = "alabaster"
  html_static_path = ["_static"]
  \<close>
  An assignment \<open>x = e\<close> at module level stores the value of \<open>e\<close> under \<open>x\<close> in the
  namespace, replacing what was there. The statements run in source order. No
  right-hand side reads a name, calls a function or indexes a container, so no
  statement has a raising branch.
\<close>

definition conf_py :: "namespace \<Rightarrow> namespace" where
  "conf_py ns0 =
    (let ns = ns0(''project'' \<mapsto> VStr ''herkos'');
         ns = ns(''copyright'' \<mapsto> VStr ''2026, Arnaud Riess'');
         ns = ns(''author'' \<mapsto> VStr ''Arnaud Riess'');
         ns = ns(''release'' \<mapsto> VStr ''0.1.0'');
         ns = ns(''extensions'' \<mapsto> VList [VStr ''myst_parser'', VStr ''sphinx_needs'']);
         ns = ns(''myst_enable_extensions'' \<mapsto> VList [VStr ''colon_fence'']);
         ns = ns(''templates_path'' \<mapsto> VList [VStr ''_templates'']);
         ns = ns(''exclude_patterns'' \<mapsto>
                  VList [VStr ''_build'', VStr ''Thumbs.db'', VStr ''.DS_Store'']);
         ns = ns(''needs_from_toml'' \<mapsto> VStr ''ubproject.toml'');
         ns = ns(''html_theme'' \<mapsto> VStr ''alabaster'');
         ns = ns(''html_static_path'' \<mapsto> VList [VStr ''_static''])
     in ns)"

subsection \<open>The Build Configuration record\<close>

text \<open>
  The record of the specification's data model, one field per name the module binds.
  The fields hold Python values as the namespace has them.
\<close>

record build_configuration =
  project :: pyval
  copyright :: pyval
  author :: pyval
  release :: pyval
  extensions :: pyval
  myst_enable_extensions :: pyval
  templates_path :: pyval
  exclude_patterns :: pyval
  needs_from_toml :: pyval
  html_theme :: pyval
  html_static_path :: pyval

text \<open>
  Reading the record out of a namespace is a lookup of each name. Looking up a name
  the namespace does not bind raises in Python (\<open>AttributeError\<close> on the module,
  \<open>KeyError\<close> on its dictionary); that error is the value \<open>None\<close> here, and the
  first failing lookup decides, as the exception would.
\<close>

definition read_conf :: "namespace \<Rightarrow> build_configuration option" where
  "read_conf ns = do {
     v1 \<leftarrow> ns ''project'';
     v2 \<leftarrow> ns ''copyright'';
     v3 \<leftarrow> ns ''author'';
     v4 \<leftarrow> ns ''release'';
     v5 \<leftarrow> ns ''extensions'';
     v6 \<leftarrow> ns ''myst_enable_extensions'';
     v7 \<leftarrow> ns ''templates_path'';
     v8 \<leftarrow> ns ''exclude_patterns'';
     v9 \<leftarrow> ns ''needs_from_toml'';
     v10 \<leftarrow> ns ''html_theme'';
     v11 \<leftarrow> ns ''html_static_path'';
     Some \<lparr> project = v1, copyright = v2, author = v3, release = v4,
            extensions = v5, myst_enable_extensions = v6, templates_path = v7,
            exclude_patterns = v8, needs_from_toml = v9, html_theme = v10,
            html_static_path = v11 \<rparr>
   }"

text \<open>
  The Configuration Loader: run the module body in the namespace the host supplies,
  then read the record.
\<close>

definition load_conf :: "namespace \<Rightarrow> build_configuration option" where
  "load_conf ns0 = read_conf (conf_py ns0)"

text \<open>
  The names the module body assigns, in source order.
\<close>

definition conf_names :: "string list" where
  "conf_names =
    [''project'', ''copyright'', ''author'', ''release'', ''extensions'',
     ''myst_enable_extensions'', ''templates_path'', ''exclude_patterns'',
     ''needs_from_toml'', ''html_theme'', ''html_static_path'']"

text \<open>
  Python's \<open>isinstance(v, str) and len(v) > 0\<close>.
\<close>

fun nonempty_str :: "pyval \<Rightarrow> bool" where
  "nonempty_str (VStr s) = (s \<noteq> [])"
| "nonempty_str (VList vs) = False"

section \<open>What the module binds\<close>

text \<open>
  After the body has run, each of the eleven names holds its literal, whatever the
  namespace held before.
\<close>

lemma conf_py_project: "conf_py ns0 ''project'' = Some (VStr ''herkos'')"
  by (simp add: conf_py_def)

lemma conf_py_copyright: "conf_py ns0 ''copyright'' = Some (VStr ''2026, Arnaud Riess'')"
  by (simp add: conf_py_def)

lemma conf_py_author: "conf_py ns0 ''author'' = Some (VStr ''Arnaud Riess'')"
  by (simp add: conf_py_def)

lemma conf_py_release: "conf_py ns0 ''release'' = Some (VStr ''0.1.0'')"
  by (simp add: conf_py_def)

lemma conf_py_extensions:
  "conf_py ns0 ''extensions'' = Some (VList [VStr ''myst_parser'', VStr ''sphinx_needs''])"
  by (simp add: conf_py_def)

lemma conf_py_myst_enable_extensions:
  "conf_py ns0 ''myst_enable_extensions'' = Some (VList [VStr ''colon_fence''])"
  by (simp add: conf_py_def)

lemma conf_py_templates_path:
  "conf_py ns0 ''templates_path'' = Some (VList [VStr ''_templates''])"
  by (simp add: conf_py_def)

lemma conf_py_exclude_patterns:
  "conf_py ns0 ''exclude_patterns'' =
     Some (VList [VStr ''_build'', VStr ''Thumbs.db'', VStr ''.DS_Store''])"
  by (simp add: conf_py_def)

lemma conf_py_needs_from_toml:
  "conf_py ns0 ''needs_from_toml'' = Some (VStr ''ubproject.toml'')"
  by (simp add: conf_py_def)

lemma conf_py_html_theme: "conf_py ns0 ''html_theme'' = Some (VStr ''alabaster'')"
  by (simp add: conf_py_def)

lemma conf_py_html_static_path:
  "conf_py ns0 ''html_static_path'' = Some (VList [VStr ''_static''])"
  by (simp add: conf_py_def)

lemmas conf_py_lookups =
  conf_py_project conf_py_copyright conf_py_author conf_py_release conf_py_extensions
  conf_py_myst_enable_extensions conf_py_templates_path conf_py_exclude_patterns
  conf_py_needs_from_toml conf_py_html_theme conf_py_html_static_path

text \<open>
  Hence the loader returns one and the same record from every initial namespace.
\<close>

lemma load_conf_eq:
  "load_conf ns0 = Some \<lparr>
     project = VStr ''herkos'',
     copyright = VStr ''2026, Arnaud Riess'',
     author = VStr ''Arnaud Riess'',
     release = VStr ''0.1.0'',
     extensions = VList [VStr ''myst_parser'', VStr ''sphinx_needs''],
     myst_enable_extensions = VList [VStr ''colon_fence''],
     templates_path = VList [VStr ''_templates''],
     exclude_patterns = VList [VStr ''_build'', VStr ''Thumbs.db'', VStr ''.DS_Store''],
     needs_from_toml = VStr ''ubproject.toml'',
     html_theme = VStr ''alabaster'',
     html_static_path = VList [VStr ''_static''] \<rparr>"
  unfolding load_conf_def read_conf_def by (simp only: conf_py_lookups bind.bind_lunit)

text \<open>
  The body touches no other name, and what it stores under its own names does not
  depend on the namespace it started from. Running it a second time changes nothing.
\<close>

lemma conf_py_other: "k \<notin> set conf_names \<Longrightarrow> conf_py ns k = ns k"
  by (simp add: conf_py_def conf_names_def)

lemma conf_py_const: "k \<in> set conf_names \<Longrightarrow> conf_py ns k = conf_py ns' k"
  unfolding conf_names_def
  by (auto simp only: list.set insert_iff empty_iff conf_py_lookups)

lemma conf_py_idem: "conf_py (conf_py ns) = conf_py ns"
proof (rule ext)
  fix k
  show "conf_py (conf_py ns) k = conf_py ns k"
  proof (cases "k \<in> set conf_names")
    case True
    then show ?thesis by (rule conf_py_const)
  next
    case False
    then show ?thesis by (rule conf_py_other)
  qed
qed

text \<open>
  The lookup can fail: on a namespace the body has not run in, reading the record
  is an error. So the success of the loader below is a property of the module body.
\<close>

lemma read_conf_empty: "read_conf Map.empty = None"
  by (simp add: read_conf_def)

section \<open>The claims\<close>

text \<open>
  C1. The enabled-extensions field of the loaded record is exactly the two-element
  sequence "myst_parser", "sphinx_needs", in that order, from any initial namespace.
\<close>

theorem C1_extensions:
  "map_option extensions (load_conf ns0) =
     Some (VList [VStr ''myst_parser'', VStr ''sphinx_needs''])"
  by (simp add: load_conf_eq)

text \<open>
  C2. The exclude-patterns field of the loaded record is a list whose elements are
  exactly the three literal patterns "_build", "Thumbs.db" and ".DS_Store", and no
  others; the list has three elements, in the order the source writes them.
\<close>

theorem C2_exclude_patterns:
  "\<exists>ps. map_option exclude_patterns (load_conf ns0) = Some (VList ps) \<and>
        set ps = {VStr ''_build'', VStr ''Thumbs.db'', VStr ''.DS_Store''} \<and>
        ps = [VStr ''_build'', VStr ''Thumbs.db'', VStr ''.DS_Store'']"
  by (simp add: load_conf_eq)

text \<open>
  C3. The external settings reference field (\<open>needs_from_toml\<close>) of the loaded record
  is the string "ubproject.toml".
\<close>

theorem C3_needs_from_toml:
  "map_option needs_from_toml (load_conf ns0) = Some (VStr ''ubproject.toml'')"
  by (simp add: load_conf_eq)

text \<open>
  C4. The theme-name field of the loaded record is the string "alabaster" and its
  release-version field is the string "0.1.0".
\<close>

theorem C4_theme_and_release:
  "map_option html_theme (load_conf ns0) = Some (VStr ''alabaster'') \<and>
   map_option release (load_conf ns0) = Some (VStr ''0.1.0'')"
  by (simp add: load_conf_eq)

text \<open>
  C5. Reading the configuration is deterministic. Two loads give the same result
  whatever the two initial namespaces hold, so nothing outside the module body
  influences the record; loading again in the namespace a first load left behind gives
  the same record; and running the body again leaves that namespace as it is.
\<close>

theorem C5_deterministic:
  "load_conf ns1 = load_conf ns2 \<and>
   load_conf (conf_py ns1) = load_conf ns1 \<and>
   conf_py (conf_py ns1) = conf_py ns1"
proof -
  have "load_conf ns1 = load_conf ns2"
    by (simp only: load_conf_eq)
  moreover have "load_conf (conf_py ns1) = load_conf ns1"
    by (simp only: load_conf_eq)
  moreover have "conf_py (conf_py ns1) = conf_py ns1"
    by (rule conf_py_idem)
  ultimately show ?thesis by simp
qed

text \<open>
  C6. The project-name field of the loaded record is a string, and it is not empty.
\<close>

theorem C6_project_nonempty:
  "\<exists>cfg. load_conf ns0 = Some cfg \<and> nonempty_str (project cfg)"
  by (simp add: load_conf_eq)

text \<open>
  C7. Constructing and reading the record never raises. The module body has no
  raising statement, and after it every lookup of the reader finds its name: from
  every initial namespace the loader returns a record, never the error value.
\<close>

theorem C7_never_raises:
  "(\<exists>cfg. load_conf ns0 = Some cfg) \<and> load_conf ns0 \<noteq> None \<and>
   set conf_names \<subseteq> dom (conf_py ns0)"
proof -
  have "\<exists>cfg. load_conf ns0 = Some cfg"
    by (simp only: load_conf_eq) blast
  moreover from this have "load_conf ns0 \<noteq> None"
    by auto
  moreover have "set conf_names \<subseteq> dom (conf_py ns0)"
    unfolding conf_names_def
    by (auto simp only: list.set insert_iff empty_iff conf_py_lookups)
  ultimately show ?thesis by blast
qed

text \<open>
  C8. The patterns of the exclude-patterns field are pairwise distinct: no pattern
  occurs twice in the list.
\<close>

theorem C8_exclude_patterns_distinct:
  "\<exists>ps. map_option exclude_patterns (load_conf ns0) = Some (VList ps) \<and> distinct ps"
  by (simp add: load_conf_eq)

text \<open>
  C9. The Markdown sub-extensions field (\<open>myst_enable_extensions\<close>) of the loaded
  record is exactly the one-element sequence "colon_fence".
\<close>

theorem C9_myst_enable_extensions:
  "map_option myst_enable_extensions (load_conf ns0) = Some (VList [VStr ''colon_fence''])"
  by (simp add: load_conf_eq)

text \<open>
  C10. The template-search-paths field of the loaded record is exactly the one-element
  sequence "_templates", and the static-asset-paths field is exactly the one-element
  sequence "_static".
\<close>

theorem C10_paths:
  "map_option templates_path (load_conf ns0) = Some (VList [VStr ''_templates'']) \<and>
   map_option html_static_path (load_conf ns0) = Some (VList [VStr ''_static''])"
  by (simp add: load_conf_eq)

end
